theory Spec2Isabelle
  imports Complex_Main "HOL-Library.Multiset"
begin

section \<open>Cells of a data frame\<close>

text \<open>
  The two applications keep their stations in pandas data frames. A cell of a float
  column is a number or NaN (pandas' null), a cell of an object column is a string or
  null. Floating-point numbers are idealised as reals: \<open>None\<close> stands for NaN/null,
  \<open>Some x\<close> for the number \<open>x\<close>. Rounding, overflow and the infinities are outside
  this model.
\<close>

type_synonym fcell = "real option"
type_synonym scell = "string option"

section \<open>Distance (\<open>haversine_np\<close>, app.py 35-40 and ev\_charger\_locator.py 14-25)\<close>

text \<open>\<open>np.radians\<close>: degrees to radians.\<close>

definition radians :: "real \<Rightarrow> real" where
  "radians d = d * pi / 180"

text \<open>
  The body of \<open>haversine_np(lon1, lat1, lon2, lat2)\<close>, line by line; both files hold the
  same function. \<open>np.sin\<close>, \<open>np.cos\<close>, \<open>np.sqrt\<close> and \<open>np.arcsin\<close> are read as the
  real functions they approximate.
\<close>

definition haversine_np :: "real \<Rightarrow> real \<Rightarrow> real \<Rightarrow> real \<Rightarrow> real" where
  "haversine_np lon1 lat1 lon2 lat2 =
     (let R = 6371;
          lon1r = radians lon1; lat1r = radians lat1;
          lon2r = radians lon2; lat2r = radians lat2;
          dlon = lon2r - lon1r; dlat = lat2r - lat1r;
          a = (sin (dlat / 2))\<^sup>2 + cos lat1r * cos lat2r * (sin (dlon / 2))\<^sup>2
      in 2 * R * arcsin (sqrt a))"

text \<open>
  The function applied to a column: numpy works element by element, and NaN in a
  coordinate gives NaN. The second point is the scalar reference point (app.py 109,
  ev\_charger\_locator.py 212-215, where \<open>np.full\<close> repeats the scalar).
\<close>

definition haversine_cell :: "fcell \<Rightarrow> fcell \<Rightarrow> real \<Rightarrow> real \<Rightarrow> fcell" where
  "haversine_cell lon1 lat1 lon2 lat2 =
     (case lon1 of
        None \<Rightarrow> None
      | Some x \<Rightarrow> (case lat1 of None \<Rightarrow> None | Some y \<Rightarrow> Some (haversine_np x y lon2 lat2)))"







text \<open>
  The formula in the specification's words: all four coordinates in radians, the two
  differences, the term \<open>a\<close>, and \<open>2 R asin (sqrt a)\<close> with \<open>R = 6371\<close>. Point 1 is
  \<open>(lat1, lon1)\<close>, point 2 is \<open>(lat2, lon2)\<close>.
\<close>

definition haversine_spec :: "real \<Rightarrow> real \<Rightarrow> real \<Rightarrow> real \<Rightarrow> real" where
  "haversine_spec lat1 lon1 lat2 lon2 =
     2 * 6371 *
       arcsin (sqrt ((sin ((lat2 * pi / 180 - lat1 * pi / 180) / 2))\<^sup>2 +
                     cos (lat1 * pi / 180) * cos (lat2 * pi / 180) *
                     (sin ((lon2 * pi / 180 - lon1 * pi / 180) / 2))\<^sup>2))"

section \<open>The spreadsheet application (app.py)\<close>

subsection \<open>Loading the sheet (\<open>load_data\<close>, app.py 16-32)\<close>



text \<open>
  A row after the column selection and the renaming of lines 21-29 (operator, access
  and place type are the renamed columns).
\<close>

record station =
  name :: scell
  address :: scell
  lat :: fcell
  lon :: fcell
  connector :: scell
  operator :: scell
  access :: scell
  place :: scell
  speed :: scell






subsection \<open>The filters of the sidebar (app.py 57-77)\<close>

text \<open>The label of the "all" option, the two Hangul syllables of line 59, in UTF-8.\<close>

definition select_all :: string where
  "select_all = map char_of [0xEC, 0xA0, 0x84, 0xEC, 0xB2, 0xB4 :: nat]"

text \<open>
  \<open>Series.dropna().unique()\<close>: the values that are not null, each once, in the order
  of their first appearance.
\<close>

definition dropna :: "'a option list \<Rightarrow> 'a list" where
  "dropna col = concat (map (\<lambda>c. case c of None \<Rightarrow> [] | Some v \<Rightarrow> [v]) col)"

definition unique :: "'a list \<Rightarrow> 'a list" where
  "unique xs = rev (remdups (rev xs))"

text \<open>Lines 60-61 and their four copies: a choice holding the label becomes every value.\<close>

definition expand_all :: "scell list \<Rightarrow> string list \<Rightarrow> string list" where
  "expand_all col selected =
     (if select_all \<in> set selected then unique (dropna col) else selected)"

record selection =
  selected_connectors :: "string list"
  selected_operators :: "string list"
  selected_places :: "string list"
  selected_access :: "string list"
  selected_speeds :: "string list"

text \<open>The sidebar: from what the user picked in the five widgets to the five accepted lists.\<close>

definition sidebar :: "station list \<Rightarrow> selection \<Rightarrow> selection" where
  "sidebar df_raw picked =
     \<lparr>selected_connectors = expand_all (map connector df_raw) (selected_connectors picked),
      selected_operators = expand_all (map operator df_raw) (selected_operators picked),
      selected_places = expand_all (map place df_raw) (selected_places picked),
      selected_access = expand_all (map access df_raw) (selected_access picked),
      selected_speeds = expand_all (map speed df_raw) (selected_speeds picked)\<rparr>"

subsection \<open>The search (app.py 107-117)\<close>

text \<open>\<open>Series.isin(values)\<close> on one cell; the values are strings, so a null cell is not among them.\<close>

definition isin :: "scell \<Rightarrow> string list \<Rightarrow> bool" where
  "isin c vals = (case c of None \<Rightarrow> False | Some v \<Rightarrow> v \<in> set vals)"

text \<open>\<open>distance <= radius\<close> on one cell: a comparison with NaN is false.\<close>

definition within_radius :: "fcell \<Rightarrow> real \<Rightarrow> bool" where
  "within_radius d radius_km = (case d of None \<Rightarrow> False | Some x \<Rightarrow> x \<le> radius_km)"

text \<open>Line 109: the distance column, from the rows' own coordinates to the point \<open>(lat, lon)\<close>.\<close>

definition add_distance :: "station list \<Rightarrow> real \<Rightarrow> real \<Rightarrow> (station \<times> fcell) list" where
  "add_distance df lon_ref lat_ref =
     map (\<lambda>r. (r, haversine_cell (lon r) (lat r) lon_ref lat_ref)) df"

text \<open>Lines 111-116: the six conditions joined by \<open>&\<close>, in the order of the source.\<close>

definition row_mask :: "selection \<Rightarrow> real \<Rightarrow> station \<times> fcell \<Rightarrow> bool" where
  "row_mask sel radius_km row =
     (isin (operator (fst row)) (selected_operators sel) \<and>
      isin (place (fst row)) (selected_places sel) \<and>
      isin (access (fst row)) (selected_access sel) \<and>
      isin (connector (fst row)) (selected_connectors sel) \<and>
      isin (speed (fst row)) (selected_speeds sel) \<and>
      within_radius (snd row) radius_km)"

text \<open>
  Lines 110-117: the rows the mask keeps, handed to \<open>sort_values\<close>. The sort is pandas'
  and is the parameter \<open>sort_values\<close>; the call names the column and nothing else, so it
  runs with the default \<open>kind='quicksort'\<close>.
\<close>

definition search_rows ::
  "((station \<times> fcell) list \<Rightarrow> (station \<times> fcell) list) \<Rightarrow>
   station list \<Rightarrow> selection \<Rightarrow> real \<Rightarrow> real \<Rightarrow> real \<Rightarrow> (station \<times> fcell) list" where
  "search_rows sort_values df_raw sel lon_ref lat_ref radius_km =
     sort_values (filter (row_mask sel radius_km) (add_distance df_raw lon_ref lat_ref))"

section \<open>Sorting by the distance column\<close>

text \<open>
  What \<open>DataFrame.sort_values(column)\<close> promises with its defaults: the same rows,
  ascending in the column, NaN last. Equal keys may come in any order: pandas documents
  only \<open>mergesort\<close> and \<open>stable\<close> as stable, and the default is neither.
\<close>

definition dist_le :: "fcell \<Rightarrow> fcell \<Rightarrow> bool" where
  "dist_le a b =
     (case b of None \<Rightarrow> True | Some y \<Rightarrow> (case a of None \<Rightarrow> False | Some x \<Rightarrow> x \<le> y))"

definition ascending :: "('r \<times> fcell) list \<Rightarrow> bool" where
  "ascending rows = sorted_wrt (\<lambda>p q. dist_le (snd p) (snd q)) rows"

definition sorts_by_distance :: "(('r \<times> fcell) list \<Rightarrow> ('r \<times> fcell) list) \<Rightarrow> bool" where
  "sorts_by_distance sort_values =
     (\<forall>rows. ascending (sort_values rows) \<and> mset (sort_values rows) = mset rows)"

text \<open>
  A sort that keeps the promise, for the worked examples: insertion sort, which leaves
  rows of equal distance in the order they had.
\<close>

fun insert_before :: "'r \<times> fcell \<Rightarrow> ('r \<times> fcell) list \<Rightarrow> ('r \<times> fcell) list" where
  "insert_before p [] = [p]"
| "insert_before p (q # qs) =
     (if dist_le (snd p) (snd q) then p # q # qs else q # insert_before p qs)"

fun stable_sort :: "('r \<times> fcell) list \<Rightarrow> ('r \<times> fcell) list" where
  "stable_sort [] = []"
| "stable_sort (p # ps) = insert_before p (stable_sort ps)"

section \<open>The API application (ev\_charger\_locator.py)\<close>

subsection \<open>Fetching the stations (\<open>fetch_ev_data_from_api\<close>, lines 31-112)\<close>


text \<open>A row of the frame built at line 92; the fields follow the keys of lines 77-85.\<close>

record api_station =
  api_name :: string
  api_address :: string
  api_lat :: fcell
  api_lon :: fcell
  api_hours :: string
  api_operator :: string
  api_charger_type :: string
  api_status :: string










subsection \<open>The search (lines 207-219)\<close>

text \<open>Lines 212-216: the distances from the rows' coordinates to the user's point.\<close>

definition api_add_distance ::
  "api_station list \<Rightarrow> real \<Rightarrow> real \<Rightarrow> (api_station \<times> fcell) list" where
  "api_add_distance df user_lng user_lat =
     map (\<lambda>r. (r, haversine_cell (api_lon r) (api_lat r) user_lng user_lat)) df"

text \<open>Line 219: the one condition, the radius, and the sort by distance.\<close>

definition nearby_rows ::
  "((api_station \<times> fcell) list \<Rightarrow> (api_station \<times> fcell) list) \<Rightarrow>
   api_station list \<Rightarrow> real \<Rightarrow> real \<Rightarrow> real \<Rightarrow> (api_station \<times> fcell) list" where
  "nearby_rows sort_values df user_lng user_lat radius_km =
     sort_values (filter (\<lambda>row. within_radius (snd row) radius_km)
                    (api_add_distance df user_lng user_lat))"

section \<open>Frames as objects: the search as a step of the application\<close>

text \<open>
  A data frame is a mutable object and a Python variable holds a reference to it. The
  store maps references to frames; \<open>next_ref\<close> is the first reference not yet in use.
  A frame is its rows, with the distance column once line 109 (216 in the API
  application) has added it.
\<close>

datatype 'r frame = Plain "'r list" | With_distance "('r \<times> fcell) list"

fun rows_of :: "'r frame \<Rightarrow> 'r list" where
  "rows_of (Plain rs) = rs"
| "rows_of (With_distance ps) = map fst ps"

record 'r store =
  frames :: "nat \<Rightarrow> 'r frame"
  next_ref :: nat

text \<open>A new object: filtering, sorting and copying each return one.\<close>

definition alloc :: "'r frame \<Rightarrow> 'r store \<Rightarrow> nat \<times> 'r store" where
  "alloc f h = (next_ref h, h\<lparr>frames := (frames h)(next_ref h := f), next_ref := Suc (next_ref h)\<rparr>)"

text \<open>\<open>DataFrame.copy()\<close>: a new object holding the same rows.\<close>

definition copy_frame :: "nat \<Rightarrow> 'r store \<Rightarrow> nat \<times> 'r store" where
  "copy_frame ref h = alloc (frames h ref) h"

text \<open>\<open>df[column] = values\<close>: the object behind the reference changes in place.\<close>

definition assign_distance :: "nat \<Rightarrow> ('r \<times> fcell) list \<Rightarrow> 'r store \<Rightarrow> 'r store" where
  "assign_distance ref annotated h = h\<lparr>frames := (frames h)(ref := With_distance annotated)\<rparr>"

subsection \<open>app.py, the block under the search button (107-125)\<close>

text \<open>\<open>st.session_state\<close>: the five keys the block writes; \<open>None\<close> is a key not yet set.\<close>

record session =
  searched :: "bool option"
  results :: "nat option"
  center_lat :: "real option"
  center_lon :: "real option"
  radius :: "real option"

record app =
  heap :: "station store"
  df_raw :: nat
  session_state :: session

text \<open>
  The block: \<open>sel\<close> are the accepted lists of the sidebar, \<open>lat_ref\<close>, \<open>lon_ref\<close> and
  \<open>radius_km\<close> the values of the widgets when the button is pressed.
\<close>

definition search_click ::
  "((station \<times> fcell) list \<Rightarrow> (station \<times> fcell) list) \<Rightarrow>
   selection \<Rightarrow> real \<Rightarrow> real \<Rightarrow> real \<Rightarrow> app \<Rightarrow> app" where
  "search_click sort_values sel lat_ref lon_ref radius_km a =
     (let (df, h1) = copy_frame (df_raw a) (heap a);
          annotated = add_distance (rows_of (frames h1 df)) lon_ref lat_ref;
          h2 = assign_distance df annotated h1;
          (found, h3) = alloc (With_distance (sort_values (filter (row_mask sel radius_km) annotated))) h2
      in a\<lparr>heap := h3,
            session_state :=
              \<lparr>searched = Some True, results = Some found, center_lat = Some lat_ref,
               center_lon = Some lon_ref, radius = Some radius_km\<rparr>\<rparr>)"

text \<open>The frame the session holds as \<open>results\<close> (a session without the key holds none).\<close>

definition result_frame :: "app \<Rightarrow> station frame option" where
  "result_frame a = map_option (frames (heap a)) (results (session_state a))"

subsection \<open>ev\_charger\_locator.py, the block under the search button (195-229)\<close>

text \<open>The session of lines 168-173; every key is set before the block runs.\<close>

record api_session =
  api_searched :: bool
  nearby :: nat
  user_lat :: real
  user_lng :: real
  api_radius :: real

record api_app =
  api_heap :: "api_station store"
  api_df :: nat
  api_session_state :: api_session

text \<open>
  Where the user's point comes from: the address mode with the answer of
  \<open>get_coordinates\<close> (\<open>None\<close> for its \<open>(None, None)\<close>), or the two number inputs.
\<close>

datatype location = Address "(real \<times> real) option" | Direct real real

fun user_point :: "location \<Rightarrow> (real \<times> real) option" where
  "user_point (Address found) = found"
| "user_point (Direct lat_in lng_in) = Some (lat_in, lng_in)"

definition search_button ::
  "((api_station \<times> fcell) list \<Rightarrow> (api_station \<times> fcell) list) \<Rightarrow>
   location \<Rightarrow> real \<Rightarrow> api_app \<Rightarrow> api_app" where
  "search_button sort_values loc radius_km a =
     (case user_point loc of
        None \<Rightarrow> a\<lparr>api_session_state := (api_session_state a)\<lparr>api_searched := False\<rparr>\<rparr>
      | Some (lat_ref, lng_ref) \<Rightarrow>
          (let (df_copy, h1) = copy_frame (api_df a) (api_heap a);
               dists = api_add_distance (rows_of (frames h1 df_copy)) lng_ref lat_ref;
               h2 = assign_distance df_copy dists h1;
               (found, h3) =
                 alloc (With_distance (sort_values (filter (\<lambda>row. within_radius (snd row) radius_km) dists))) h2
           in a\<lparr>api_heap := h3,
                 api_session_state :=
                   \<lparr>api_searched = True, nearby = found, user_lat = lat_ref,
                    user_lng = lng_ref, api_radius = radius_km\<rparr>\<rparr>))"

section \<open>The specification's notions\<close>

text \<open>
  The accepted set of one filter in the specification's words: under "select all" the
  distinct values of the field that are not null, otherwise the values chosen.
\<close>

definition accepted_set :: "scell list \<Rightarrow> string list \<Rightarrow> string set" where
  "accepted_set col picked =
     (if select_all \<in> set picked then {v. Some v \<in> set col} else set picked)"

text \<open>The pair that identifies a station in the specification: its name and its address.\<close>

definition name_address :: "station \<Rightarrow> scell \<times> scell" where
  "name_address r = (name r, address r)"

definition api_name_address :: "api_station \<Rightarrow> string \<times> string" where
  "api_name_address r = (api_name r, api_address r)"

section \<open>Sample data\<close>

text \<open>
  Stations for the worked examples: two at the reference point (latitude 37, longitude
  127), a second charger of the first station (same name and address), a station whose
  place type is null, and one at the antipode.
\<close>

definition station_a :: station where
  "station_a =
     \<lparr>name = Some ''A'', address = Some ''Sejong-daero 110'', lat = Some 37, lon = Some 127,
      connector = Some ''DC combo'', operator = Some ''KEPCO'', access = Some ''open'',
      place = Some ''public'', speed = Some ''fast''\<rparr>"

definition station_b :: station where
  "station_b = station_a\<lparr>name := Some ''B'', address := Some ''Sejong-daero 112''\<rparr>"

definition station_a_second :: station where
  "station_a_second = station_a\<lparr>connector := Some ''AC''\<rparr>"

definition station_no_place :: station where
  "station_no_place = station_a\<lparr>name := Some ''C'', place := None\<rparr>"

definition station_far :: station where
  "station_far = station_a\<lparr>name := Some ''D'', lat := Some (- 37), lon := Some (- 53)\<rparr>"

text \<open>Every widget of the sidebar left at its default, the "all" label.\<close>

definition pick_all :: selection where
  "pick_all =
     \<lparr>selected_connectors = [select_all], selected_operators = [select_all],
      selected_places = [select_all], selected_access = [select_all],
      selected_speeds = [select_all]\<rparr>"

text \<open>The spreadsheet application before the first search: the loaded frame is object 0.\<close>

definition app_start :: app where
  "app_start =
     \<lparr>heap = \<lparr>frames = (\<lambda>_. Plain [])(0 := Plain [station_a, station_far, station_b]), next_ref = 1\<rparr>,
      df_raw = 0,
      session_state =
        \<lparr>searched = None, results = None, center_lat = None, center_lon = None, radius = None\<rparr>\<rparr>"







definition api_a :: api_station where
  "api_a =
     \<lparr>api_name = ''A'', api_address = ''Sejong-daero 110'', api_lat = Some 37, api_lon = Some 127,
      api_hours = ''24h'', api_operator = ''KEPCO'', api_charger_type = ''1'', api_status = ''1''\<rparr>"

definition api_a_second :: api_station where
  "api_a_second = api_a\<lparr>api_charger_type := ''2'', api_status := ''2''\<rparr>"

definition api_far :: api_station where
  "api_far = api_a\<lparr>api_name := ''D'', api_lat := Some (- 37), api_lon := Some (- 53)\<rparr>"

text \<open>The API application after the session of lines 168-173 is set: the fetched frame is
  object 0, the empty frame of \<open>nearby\<close> object 1.\<close>

definition api_start :: api_app where
  "api_start =
     \<lparr>api_heap = \<lparr>frames = (\<lambda>_. Plain [])(0 := Plain [api_a, api_far], 1 := Plain []), next_ref = 2\<rparr>,
      api_df = 0,
      api_session_state =
        \<lparr>api_searched = False, nearby = 1, user_lat = 37.5665, user_lng = 126.9780,
         api_radius = 1\<rparr>\<rparr>"

section \<open>Facts about the distance\<close>





lemma haversine_np_same: "haversine_np x y x y = 0"
  by (simp add: haversine_np_def Let_def)

lemma haversine_np_antipode: "haversine_np (lo - 180) (- la) lo la = 6371 * pi"
proof -
  have 1: "(radians la - radians (- la)) / 2 = radians la"
    by (simp add: radians_def)
  have 2: "(radians lo - radians (lo - 180)) / 2 = pi / 2"
    by (simp add: radians_def field_simps)
  have 3: "cos (radians (- la)) = cos (radians la)"
    by (simp add: radians_def)
  have "(sin (radians la))\<^sup>2 + cos (radians la) * cos (radians la) * (sin (pi / 2))\<^sup>2 = 1"
    by (simp add: power2_eq_square [symmetric])
  then show ?thesis
    by (simp add: haversine_np_def Let_def 1 2 3)
qed


lemma far_beyond: "r \<le> 10 \<Longrightarrow> \<not> 6371 * pi \<le> r"
proof -
  assume "r \<le> 10"
  moreover have "6371 * 2 \<le> 6371 * pi"
    using pi_ge_two by (intro mult_left_mono) auto
  ultimately show ?thesis by simp
qed

section \<open>Facts about sorting by distance\<close>

lemma dist_le_total: "dist_le a b \<or> dist_le b a"
  by (auto simp: dist_le_def split: option.splits)

lemma dist_le_trans: "dist_le a b \<Longrightarrow> dist_le b c \<Longrightarrow> dist_le a c"
  by (auto simp: dist_le_def split: option.splits)

lemma mset_insert_before: "mset (insert_before p qs) = add_mset p (mset qs)"
  by (induction qs) auto

lemma set_insert_before: "set (insert_before p qs) = insert p (set qs)"
  using mset_insert_before [of p qs] by (metis set_mset_add_mset_insert set_mset_mset)

lemma ascending_insert_before: "ascending qs \<Longrightarrow> ascending (insert_before p qs)"
proof (induction qs)
  case Nil
  then show ?case by (simp add: ascending_def)
next
  case (Cons q qs)
  show ?case
  proof (cases "dist_le (snd p) (snd q)")
    case True
    with Cons.prems show ?thesis
      by (auto simp: ascending_def intro: dist_le_trans)
  next
    case False
    then have "dist_le (snd q) (snd p)"
      using dist_le_total by blast
    with False Cons show ?thesis
      by (auto simp: ascending_def set_insert_before)
  qed
qed

lemma stable_sort_sorts: "sorts_by_distance stable_sort"
proof -
  have "ascending (stable_sort rows) \<and> mset (stable_sort rows) = mset rows" for rows :: "('a \<times> fcell) list"
    by (induction rows) (auto simp: ascending_def ascending_insert_before [unfolded ascending_def] mset_insert_before)
  then show ?thesis by (simp add: sorts_by_distance_def)
qed

lemma sorts_mset: "sorts_by_distance srt \<Longrightarrow> mset (srt rows) = mset rows"
  by (simp add: sorts_by_distance_def)

lemma sorts_set: "sorts_by_distance srt \<Longrightarrow> set (srt rows) = set rows"
  using sorts_mset [of srt rows] by (metis set_mset_mset)


section \<open>Facts about the two searches\<close>

lemma within_radius_Some: "within_radius d r \<Longrightarrow> d \<noteq> None"
  by (cases d) (simp_all add: within_radius_def)

lemma set_search_rows:
  "sorts_by_distance srt \<Longrightarrow>
   set (search_rows srt df sel lo la r) = {p \<in> set (add_distance df lo la). row_mask sel r p}"
  by (auto simp: search_rows_def sorts_set)

lemma set_nearby_rows:
  "sorts_by_distance srt \<Longrightarrow>
   set (nearby_rows srt df lo la r) = {p \<in> set (api_add_distance df lo la). within_radius (snd p) r}"
  by (auto simp: nearby_rows_def sorts_set)

lemma select_all_not_empty: "select_all \<noteq> []"
  by (simp add: select_all_def)

section \<open>The sample data, evaluated\<close>

lemma haversine_np_far: "haversine_np (- 53) (- 37) 127 37 = 6371 * pi"
  using haversine_np_antipode [of 127 37] by simp

lemma sidebar_pick_all:
  "sidebar df pick_all =
     \<lparr>selected_connectors = unique (dropna (map connector df)),
      selected_operators = unique (dropna (map operator df)),
      selected_places = unique (dropna (map place df)),
      selected_access = unique (dropna (map access df)),
      selected_speeds = unique (dropna (map speed df))\<rparr>"
  by (simp add: sidebar_def pick_all_def expand_all_def)

lemmas sample_simps =
  search_rows_def nearby_rows_def add_distance_def api_add_distance_def haversine_cell_def
  haversine_np_same haversine_np_far far_beyond sidebar_pick_all unique_def dropna_def
  row_mask_def isin_def within_radius_def dist_le_def
  station_a_def station_b_def station_far_def station_a_second_def station_no_place_def
  api_a_def api_far_def api_a_second_def

lemma sample_search:
  "search_rows stable_sort [station_a, station_far, station_b]
     (sidebar [station_a, station_far, station_b] pick_all) 127 37 1 =
   [(station_a, Some 0), (station_b, Some 0)]"
  by (simp add: sample_simps)

lemma sample_nearby: "nearby_rows stable_sort [api_a, api_far] 127 37 1 = [(api_a, Some 0)]"
  by (simp add: sample_simps)

section \<open>Facts about the filters\<close>

lemma set_dropna: "set (dropna col) = {v. Some v \<in> set col}"
  by (induction col) (auto simp: dropna_def split: option.splits)

lemma set_unique: "set (unique xs) = set xs"
  by (simp add: unique_def)

lemma distinct_unique: "distinct (unique xs)"
  by (simp add: unique_def)

lemma isin_expand_all:
  "isin c (expand_all col picked) \<longleftrightarrow> (\<exists>v. c = Some v \<and> v \<in> accepted_set col picked)"
  by (cases c) (simp_all add: isin_def expand_all_def accepted_set_def set_unique set_dropna)

lemma in_add_distance:
  "(r, d) \<in> set (add_distance df lo la) \<longleftrightarrow> r \<in> set df \<and> d = haversine_cell (lon r) (lat r) lo la"
  by (auto simp: add_distance_def)

lemma in_api_add_distance:
  "(r, d) \<in> set (api_add_distance df lo la) \<longleftrightarrow>
     r \<in> set df \<and> d = haversine_cell (api_lon r) (api_lat r) lo la"
  by (auto simp: api_add_distance_def)

lemma accepted_set_all: "accepted_set col [select_all] = {v. Some v \<in> set col}"
  by (simp add: accepted_set_def)

lemma within_radius_iff: "within_radius c r \<longleftrightarrow> (\<exists>d. c = Some d \<and> d \<le> r)"
  by (cases c) (simp_all add: within_radius_def)

lemma sample_search_zero:
  "search_rows stable_sort [station_a, station_far, station_b]
     (sidebar [station_a, station_far, station_b] pick_all) 127 37 0 =
   [(station_a, Some 0), (station_b, Some 0)]"
  by (simp add: sample_simps)

lemma sample_nearby_zero: "nearby_rows stable_sort [api_a, api_far] 127 37 0 = [(api_a, Some 0)]"
  by (simp add: sample_simps)

lemma haversine_cell_Some:
  "c = haversine_cell x y lo la \<and> (\<exists>d. c = Some d \<and> d \<le> r) \<longleftrightarrow>
   (\<exists>a b. x = Some a \<and> y = Some b \<and> c = Some (haversine_np a b lo la) \<and> haversine_np a b lo la \<le> r)"
  by (cases x; cases y) (auto simp: haversine_cell_def)

section \<open>Facts about the domains of the square root and the arc sine\<close>






section \<open>Facts about the rows of a result\<close>

lemma distinct_mset_subseteq:
  assumes "mset xs \<subseteq># mset ys" and "distinct ys"
  shows "distinct xs"
proof -
  from assms(1) obtain M where "mset ys = mset xs + M"
    by (auto simp: subset_mset.le_iff_add)
  moreover obtain zs where "mset zs = M"
    using ex_mset by blast
  ultimately have "mset ys = mset (xs @ zs)"
    by simp
  then have "distinct (xs @ zs)"
    using assms(2) mset_eq_imp_distinct_iff by blast
  then show ?thesis by simp
qed

lemma mset_map_filter_subseteq: "mset (map f (filter P xs)) \<subseteq># mset (map f xs)"
proof -
  have "mset (filter P xs) \<subseteq># mset xs"
    by simp
  then have "image_mset f (mset (filter P xs)) \<subseteq># image_mset f (mset xs)"
    by (rule image_mset_subseteq_mono)
  then show ?thesis by simp
qed

lemma map_fst_filter_pairs:
  "map fst (filter P (map (\<lambda>x. (x, f x)) xs)) = filter (\<lambda>x. P (x, f x)) xs"
  by (induction xs) auto

lemma search_rows_stations:
  assumes "sorts_by_distance srt"
  shows "mset (map fst (search_rows srt df sel lo la r)) =
         mset (filter (\<lambda>x. row_mask sel r (x, haversine_cell (lon x) (lat x) lo la)) df)"
proof -
  have "mset (map fst (search_rows srt df sel lo la r)) =
        image_mset fst (mset (search_rows srt df sel lo la r))"
    by simp
  also have "\<dots> = image_mset fst (mset (filter (row_mask sel r) (add_distance df lo la)))"
    using assms by (simp only: search_rows_def sorts_mset)
  also have "\<dots> = mset (map fst (filter (row_mask sel r) (add_distance df lo la)))"
    by simp
  also have "\<dots> = mset (filter (\<lambda>x. row_mask sel r (x, haversine_cell (lon x) (lat x) lo la)) df)"
    by (simp only: add_distance_def map_fst_filter_pairs)
  finally show ?thesis .
qed

lemma nearby_rows_stations:
  assumes "sorts_by_distance srt"
  shows "mset (map fst (nearby_rows srt df lo la r)) =
         mset (filter (\<lambda>x. within_radius (haversine_cell (api_lon x) (api_lat x) lo la) r) df)"
proof -
  have "mset (map fst (nearby_rows srt df lo la r)) =
        image_mset fst (mset (nearby_rows srt df lo la r))"
    by simp
  also have "\<dots> = image_mset fst
      (mset (filter (\<lambda>row. within_radius (snd row) r) (api_add_distance df lo la)))"
    using assms by (simp only: nearby_rows_def sorts_mset)
  also have "\<dots> = mset (map fst
      (filter (\<lambda>row. within_radius (snd row) r) (api_add_distance df lo la)))"
    by simp
  also have "\<dots> = mset (filter (\<lambda>x. within_radius (haversine_cell (api_lon x) (api_lat x) lo la) r) df)"
    by (simp only: api_add_distance_def map_fst_filter_pairs snd_conv)
  finally show ?thesis .
qed

lemma mset_map_comp: "mset (map (g \<circ> f) xs) = image_mset g (mset (map f xs))"
  by (simp add: multiset.map_comp)









section \<open>Facts about the search as a step of the application\<close>

lemma search_click_result:
  "result_frame (search_click srt sel la lo r a) =
     Some (With_distance (search_rows srt (rows_of (frames (heap a) (df_raw a))) sel lo la r))"
  by (simp add: search_click_def result_frame_def copy_frame_def alloc_def assign_distance_def
      search_rows_def Let_def)

lemma search_click_frames:
  "k < next_ref (heap a) \<Longrightarrow> frames (heap (search_click srt sel la lo r a)) k = frames (heap a) k"
  by (simp add: search_click_def copy_frame_def alloc_def assign_distance_def Let_def)

lemma search_click_fields:
  "df_raw (search_click srt sel la lo r a) = df_raw a"
  "next_ref (heap (search_click srt sel la lo r a)) = Suc (Suc (next_ref (heap a)))"
  "results (session_state (search_click srt sel la lo r a)) = Some (Suc (next_ref (heap a)))"
  by (simp_all add: search_click_def copy_frame_def alloc_def assign_distance_def Let_def)

lemma search_button_result:
  "user_point loc = Some (la, lo) \<Longrightarrow>
   frames (api_heap (search_button srt loc r b)) (nearby (api_session_state (search_button srt loc r b))) =
     With_distance (nearby_rows srt (rows_of (frames (api_heap b) (api_df b))) lo la r)"
  by (simp add: search_button_def copy_frame_def alloc_def assign_distance_def
      nearby_rows_def Let_def)

lemma search_button_frames:
  "k < next_ref (api_heap b) \<Longrightarrow> frames (api_heap (search_button srt loc r b)) k = frames (api_heap b) k"
  by (simp add: search_button_def copy_frame_def alloc_def assign_distance_def Let_def
      split: option.splits prod.splits)

lemma search_button_fields:
  "api_df (search_button srt loc r b) = api_df b"
  "next_ref (api_heap b) \<le> next_ref (api_heap (search_button srt loc r b))"
  by (simp_all add: search_button_def copy_frame_def alloc_def assign_distance_def Let_def
      split: option.splits prod.splits)

lemma search_button_None:
  "user_point loc = None \<Longrightarrow>
   search_button srt loc r b = b\<lparr>api_session_state := (api_session_state b)\<lparr>api_searched := False\<rparr>\<rparr>"
  by (simp add: search_button_def)

lemma search_button_fresh:
  "user_point loc = Some (la, lo) \<Longrightarrow>
   nearby (api_session_state (search_button srt loc r b)) = Suc (next_ref (api_heap b))"
  by (simp add: search_button_def copy_frame_def alloc_def assign_distance_def Let_def)

lemma app_start_rows:
  "df_raw app_start < next_ref (heap app_start)"
  "rows_of (frames (heap app_start) (df_raw app_start)) = [station_a, station_far, station_b]"
  "frames (heap app_start) 0 = Plain [station_a, station_far, station_b]"
  "next_ref (heap app_start) = 1"
  by (simp_all add: app_start_def)

lemma api_start_rows:
  "api_df api_start < next_ref (api_heap api_start)"
  "rows_of (frames (api_heap api_start) (api_df api_start)) = [api_a, api_far]"
  "frames (api_heap api_start) 0 = Plain [api_a, api_far]"
  "next_ref (api_heap api_start) = 2"
  by (simp_all add: api_start_def)






section \<open>The claims\<close>

subsection \<open>C1: the distance is the haversine formula\<close>

text \<open>
  C1. For every station record and reference point, the distance the query computes is
  the haversine formula with Earth radius 6371 km: the four coordinates in radians, the
  differences of latitude and longitude, the term
  \<open>a = sin\<^sup>2(dlat/2) + cos(lat1) cos(lat2) sin\<^sup>2(dlon/2)\<close>, and \<open>2 R asin (sqrt a)\<close>.
  The function of the source equals the formula in the specification's words, and the
  distance column of both applications holds that formula for the row's coordinates
  (point 1) and the reference point (point 2); a row with a null coordinate gets NaN.
  The arithmetic is exact (real numbers), not floating point.
\<close>

theorem distance_by_haversine_formula:
  "haversine_np lon1 lat1 lon2 lat2 = haversine_spec lat1 lon1 lat2 lon2 \<and>
   add_distance df lon_ref lat_ref =
     map (\<lambda>r. (r, case lon r of
                      None \<Rightarrow> None
                    | Some lo \<Rightarrow>
                        (case lat r of
                           None \<Rightarrow> None
                         | Some la \<Rightarrow> Some (haversine_spec la lo lat_ref lon_ref)))) df \<and>
   api_add_distance df' lon_ref lat_ref =
     map (\<lambda>r. (r, case api_lon r of
                      None \<Rightarrow> None
                    | Some lo \<Rightarrow>
                        (case api_lat r of
                           None \<Rightarrow> None
                         | Some la \<Rightarrow> Some (haversine_spec la lo lat_ref lon_ref)))) df'"
proof -
  have eq: "haversine_np x1 y1 x2 y2 = haversine_spec y1 x1 y2 x2" for x1 y1 x2 y2
    by (simp add: haversine_np_def haversine_spec_def Let_def radians_def)
  have cell: "haversine_cell c1 c2 x2 y2 =
      (case c1 of
         None \<Rightarrow> None
       | Some lo \<Rightarrow> (case c2 of None \<Rightarrow> None | Some la \<Rightarrow> Some (haversine_spec la lo y2 x2)))"
    for c1 c2 x2 y2
    by (simp add: haversine_cell_def eq split: option.splits)
  show ?thesis
    by (simp add: eq cell add_distance_def api_add_distance_def)
qed

text \<open>
  The formula at two pairs of points: a point and itself are 0 km apart, a point and its
  antipode half the circumference, \<open>6371 \<pi>\<close> km.
\<close>

theorem distance_by_haversine_formula_witness:
  "haversine_spec 37 127 37 127 = 0 \<and> haversine_spec (- 37) (- 53) 37 127 = 6371 * pi \<and>
   add_distance [station_a, station_far] 127 37 =
     [(station_a, Some (haversine_spec 37 127 37 127)),
      (station_far, Some (haversine_spec (- 37) (- 53) 37 127))]"
proof -
  have 1: "haversine_spec 37 127 37 127 = 0"
    using distance_by_haversine_formula [of 127 37 127 37] haversine_np_same [of 127 37]
    by simp
  have 2: "haversine_spec (- 37) (- 53) 37 127 = 6371 * pi"
    using distance_by_haversine_formula [of "- 53" "- 37" 127 37] haversine_np_antipode [of 127 37]
    by simp
  have 3: "add_distance [station_a, station_far] 127 37 =
     [(station_a, Some (haversine_spec 37 127 37 127)),
      (station_far, Some (haversine_spec (- 37) (- 53) 37 127))]"
    using distance_by_haversine_formula [of 0 0 0 0 "[station_a, station_far]" 127 37]
    by (simp add: station_a_def station_far_def)
  from 1 2 3 show ?thesis by simp
qed

subsection \<open>C3: the categorical filters\<close>

text \<open>
  C3. A record appears in the result of the spreadsheet application exactly when it is
  a row of the frame, lies within the radius, and for each of the five filtered fields
  (connector type, operator, place type, access restriction, charge speed) its value is
  a member of the accepted set. Under the "select all" label the accepted set is the set
  of the distinct values of that column that are not null. The accepted lists hold
  strings only, so null is never among them, and a record whose value for a filtered
  field is null is excluded (the record's value has to be some \<open>v\<close> in the set).
\<close>

theorem categorical_filters:
  assumes "sorts_by_distance srt"
  shows "((r, d) \<in> set (search_rows srt df (sidebar df picked) lon_ref lat_ref radius_km) \<longleftrightarrow>
           r \<in> set df \<and> d = haversine_cell (lon r) (lat r) lon_ref lat_ref \<and>
           within_radius d radius_km \<and>
           (\<exists>v. connector r = Some v \<and> v \<in> accepted_set (map connector df) (selected_connectors picked)) \<and>
           (\<exists>v. operator r = Some v \<and> v \<in> accepted_set (map operator df) (selected_operators picked)) \<and>
           (\<exists>v. place r = Some v \<and> v \<in> accepted_set (map place df) (selected_places picked)) \<and>
           (\<exists>v. access r = Some v \<and> v \<in> accepted_set (map access df) (selected_access picked)) \<and>
           (\<exists>v. speed r = Some v \<and> v \<in> accepted_set (map speed df) (selected_speeds picked)))"
proof -
  have "(r, d) \<in> set (search_rows srt df (sidebar df picked) lon_ref lat_ref radius_km) \<longleftrightarrow>
        (r, d) \<in> set (add_distance df lon_ref lat_ref) \<and> row_mask (sidebar df picked) radius_km (r, d)"
    using assms by (simp add: set_search_rows)
  also have "\<dots> \<longleftrightarrow>
           r \<in> set df \<and> d = haversine_cell (lon r) (lat r) lon_ref lat_ref \<and>
           within_radius d radius_km \<and>
           (\<exists>v. connector r = Some v \<and> v \<in> accepted_set (map connector df) (selected_connectors picked)) \<and>
           (\<exists>v. operator r = Some v \<and> v \<in> accepted_set (map operator df) (selected_operators picked)) \<and>
           (\<exists>v. place r = Some v \<and> v \<in> accepted_set (map place df) (selected_places picked)) \<and>
           (\<exists>v. access r = Some v \<and> v \<in> accepted_set (map access df) (selected_access picked)) \<and>
           (\<exists>v. speed r = Some v \<and> v \<in> accepted_set (map speed df) (selected_speeds picked))"
    unfolding in_add_distance row_mask_def sidebar_def by (simp add: isin_expand_all) blast
  finally show ?thesis .
qed

text \<open>
  The theorem at a frame of two stations with every filter at "select all": the station
  with all fields set is returned, the one whose place type is null is not.
\<close>

theorem categorical_filters_witness:
  "sorts_by_distance (stable_sort :: (station \<times> fcell) list \<Rightarrow> (station \<times> fcell) list) \<and>
   (station_a, Some 0) \<in>
     set (search_rows stable_sort [station_a, station_no_place]
            (sidebar [station_a, station_no_place] pick_all) 127 37 1) \<and>
   place station_no_place = None \<and>
   (station_no_place, Some 0) \<notin>
     set (search_rows stable_sort [station_a, station_no_place]
            (sidebar [station_a, station_no_place] pick_all) 127 37 1)"
proof -
  have 1: "(station_a, Some 0) \<in>
     set (search_rows stable_sort [station_a, station_no_place]
            (sidebar [station_a, station_no_place] pick_all) 127 37 1)"
    unfolding categorical_filters [OF stable_sort_sorts]
    by (simp add: pick_all_def accepted_set_all haversine_cell_def haversine_np_same
        within_radius_def station_a_def station_no_place_def)
  have 2: "(station_no_place, Some 0) \<notin>
     set (search_rows stable_sort [station_a, station_no_place]
            (sidebar [station_a, station_no_place] pick_all) 127 37 1)"
    unfolding categorical_filters [OF stable_sort_sorts]
    by (simp add: station_no_place_def)
  show ?thesis
    using 1 2 stable_sort_sorts by (simp add: station_no_place_def)
qed

subsection \<open>C7: the radius filter\<close>

text \<open>
  C7. For every query the radius filter keeps exactly the records whose computed
  distance is less than or equal to the radius, and the boundary is inclusive. In the
  spreadsheet application a pair of a record and a distance is in the result exactly
  when the record is in the frame, the distance is the one computed for it, the five
  categorical conditions hold, and the distance is a number \<open>d\<close> with \<open>d \<le> radius\<close>.
  In the API application the same holds without the categorical conditions. A distance
  equal to the radius passes the test.
\<close>

theorem radius_filter_inclusive:
  assumes "sorts_by_distance srt" and "sorts_by_distance srt'"
  shows "((r, c) \<in> set (search_rows srt df sel lon_ref lat_ref radius_km) \<longleftrightarrow>
           r \<in> set df \<and> c = haversine_cell (lon r) (lat r) lon_ref lat_ref \<and>
           isin (operator r) (selected_operators sel) \<and> isin (place r) (selected_places sel) \<and>
           isin (access r) (selected_access sel) \<and> isin (connector r) (selected_connectors sel) \<and>
           isin (speed r) (selected_speeds sel) \<and>
           (\<exists>d. c = Some d \<and> d \<le> radius_km)) \<and>
         ((r', c') \<in> set (nearby_rows srt' df' lon_ref lat_ref radius_km) \<longleftrightarrow>
           r' \<in> set df' \<and> c' = haversine_cell (api_lon r') (api_lat r') lon_ref lat_ref \<and>
           (\<exists>d. c' = Some d \<and> d \<le> radius_km)) \<and>
         within_radius (Some radius_km) radius_km"
proof -
  have 1: "(r, c) \<in> set (search_rows srt df sel lon_ref lat_ref radius_km) \<longleftrightarrow>
           r \<in> set df \<and> c = haversine_cell (lon r) (lat r) lon_ref lat_ref \<and>
           isin (operator r) (selected_operators sel) \<and> isin (place r) (selected_places sel) \<and>
           isin (access r) (selected_access sel) \<and> isin (connector r) (selected_connectors sel) \<and>
           isin (speed r) (selected_speeds sel) \<and>
           (\<exists>d. c = Some d \<and> d \<le> radius_km)"
    using assms(1) by (simp add: set_search_rows in_add_distance row_mask_def within_radius_iff)
  have 2: "(r', c') \<in> set (nearby_rows srt' df' lon_ref lat_ref radius_km) \<longleftrightarrow>
           r' \<in> set df' \<and> c' = haversine_cell (api_lon r') (api_lat r') lon_ref lat_ref \<and>
           (\<exists>d. c' = Some d \<and> d \<le> radius_km)"
    using assms(2) by (simp add: set_nearby_rows in_api_add_distance within_radius_iff)
  have 3: "within_radius (Some radius_km) radius_km"
    by (simp add: within_radius_def)
  from 1 2 3 show ?thesis by blast
qed

text \<open>
  The theorem with radius 0: the stations at the reference point are at distance 0,
  which equals the radius, and are returned; the station at the antipode is not.
\<close>

theorem radius_filter_inclusive_witness:
  "sorts_by_distance (stable_sort :: (station \<times> fcell) list \<Rightarrow> (station \<times> fcell) list) \<and>
   sorts_by_distance (stable_sort :: (api_station \<times> fcell) list \<Rightarrow> (api_station \<times> fcell) list) \<and>
   (station_a, Some 0) \<in> set (search_rows stable_sort [station_a, station_far, station_b]
       (sidebar [station_a, station_far, station_b] pick_all) 127 37 0) \<and>
   (station_far, Some (6371 * pi)) \<notin> set (search_rows stable_sort [station_a, station_far, station_b]
       (sidebar [station_a, station_far, station_b] pick_all) 127 37 0) \<and>
   (api_a, Some 0) \<in> set (nearby_rows stable_sort [api_a, api_far] 127 37 0) \<and>
   (api_far, Some (6371 * pi)) \<notin> set (nearby_rows stable_sort [api_a, api_far] 127 37 0) \<and>
   within_radius (Some 0) 0"
proof -
  note inst = radius_filter_inclusive [OF stable_sort_sorts stable_sort_sorts]
  have 1: "(station_a, Some 0) \<in> set (search_rows stable_sort [station_a, station_far, station_b]
       (sidebar [station_a, station_far, station_b] pick_all) 127 37 0)"
    using inst [of station_a "Some 0" "[station_a, station_far, station_b]"
        "sidebar [station_a, station_far, station_b] pick_all" 127 37 0]
    by (simp add: sample_simps)
  have 2: "(station_far, Some (6371 * pi)) \<notin> set (search_rows stable_sort [station_a, station_far, station_b]
       (sidebar [station_a, station_far, station_b] pick_all) 127 37 0)"
    using inst [of station_far "Some (6371 * pi)" "[station_a, station_far, station_b]"
        "sidebar [station_a, station_far, station_b] pick_all" 127 37 0]
    by (simp add: far_beyond)
  have 3: "(api_a, Some 0) \<in> set (nearby_rows stable_sort [api_a, api_far] 127 37 0)"
    using inst [of _ _ "[]" _ 127 37 0 api_a "Some 0" "[api_a, api_far]"]
    by (simp add: sample_simps)
  have 4: "(api_far, Some (6371 * pi)) \<notin> set (nearby_rows stable_sort [api_a, api_far] 127 37 0)"
    using inst [of _ _ "[]" _ 127 37 0 api_far "Some (6371 * pi)" "[api_a, api_far]"]
    by (simp add: far_beyond)
  have 5: "within_radius (Some 0) 0"
    using inst [of _ _ "[]" _ 0 0 0 _ _ "[]"] by simp
  from 1 2 3 4 5 show ?thesis
    using stable_sort_sorts [where ?'a = station] stable_sort_sorts [where ?'a = api_station]
    by simp
qed

subsection \<open>C10: the API application filters by radius only\<close>

text \<open>
  C10. In the API application the query applies the radius filter and no other: a pair
  of a record and a distance is in the result exactly when the record is in the frame,
  both its coordinates are numbers, the distance is the one computed from them, and
  that distance is at most the radius. The operator, charger type, opening hours and
  charger status do not occur in the condition; and when those four fields of every row
  are overwritten with any values at all, each returned record is returned again, at
  the same distance.
\<close>

theorem api_search_radius_only:
  assumes "sorts_by_distance srt"
  shows "((r, c) \<in> set (nearby_rows srt df lng_ref lat_ref radius_km) \<longleftrightarrow>
           r \<in> set df \<and>
           (\<exists>lo la. api_lon r = Some lo \<and> api_lat r = Some la \<and>
              c = Some (haversine_np lo la lng_ref lat_ref) \<and>
              haversine_np lo la lng_ref lat_ref \<le> radius_km)) \<and>
         ((r, c) \<in> set (nearby_rows srt df lng_ref lat_ref radius_km) \<longrightarrow>
           (r\<lparr>api_hours := h, api_operator := op, api_charger_type := ct, api_status := st\<rparr>, c) \<in>
             set (nearby_rows srt
                    (map (\<lambda>x. x\<lparr>api_hours := h, api_operator := op, api_charger_type := ct,
                                 api_status := st\<rparr>) df)
                    lng_ref lat_ref radius_km))"
proof -
  have iff: "(x, c) \<in> set (nearby_rows srt rows lng_ref lat_ref radius_km) \<longleftrightarrow>
           x \<in> set rows \<and>
           (\<exists>lo la. api_lon x = Some lo \<and> api_lat x = Some la \<and>
              c = Some (haversine_np lo la lng_ref lat_ref) \<and>
              haversine_np lo la lng_ref lat_ref \<le> radius_km)" for x rows
    using assms
    by (simp add: set_nearby_rows in_api_add_distance within_radius_iff haversine_cell_Some)
  let ?g = "\<lambda>x. x\<lparr>api_hours := h, api_operator := op, api_charger_type := ct, api_status := st\<rparr>"
  have "(?g r, c) \<in> set (nearby_rows srt (map ?g df) lng_ref lat_ref radius_km)"
    if "(r, c) \<in> set (nearby_rows srt df lng_ref lat_ref radius_km)"
  proof -
    from that have "r \<in> set df" and
      "\<exists>lo la. api_lon r = Some lo \<and> api_lat r = Some la \<and>
              c = Some (haversine_np lo la lng_ref lat_ref) \<and>
              haversine_np lo la lng_ref lat_ref \<le> radius_km"
      by (simp_all add: iff)
    then have "?g r \<in> set (map ?g df)" and
      "\<exists>lo la. api_lon (?g r) = Some lo \<and> api_lat (?g r) = Some la \<and>
              c = Some (haversine_np lo la lng_ref lat_ref) \<and>
              haversine_np lo la lng_ref lat_ref \<le> radius_km"
      by simp_all
    then show ?thesis by (simp only: iff)
  qed
  with iff [of r df] show ?thesis by blast
qed

text \<open>
  The theorem at the two sample stations with radius 1: the station at the reference
  point is returned, the one at the antipode is not, and the first is still returned
  after its four categorical fields are overwritten.
\<close>

theorem api_search_radius_only_witness:
  "sorts_by_distance (stable_sort :: (api_station \<times> fcell) list \<Rightarrow> (api_station \<times> fcell) list) \<and>
   (api_a, Some 0) \<in> set (nearby_rows stable_sort [api_a, api_far] 127 37 1) \<and>
   (api_far, Some (6371 * pi)) \<notin> set (nearby_rows stable_sort [api_a, api_far] 127 37 1) \<and>
   (api_a\<lparr>api_hours := ''9-18'', api_operator := ''X'', api_charger_type := ''7'', api_status := ''9''\<rparr>,
      Some 0) \<in>
     set (nearby_rows stable_sort
           (map (\<lambda>x. x\<lparr>api_hours := ''9-18'', api_operator := ''X'', api_charger_type := ''7'',
                        api_status := ''9''\<rparr>) [api_a, api_far]) 127 37 1)"
proof -
  note inst = api_search_radius_only [OF stable_sort_sorts]
  have 1: "(api_a, Some 0) \<in> set (nearby_rows stable_sort [api_a, api_far] 127 37 1)"
    unfolding inst [THEN conjunct1]
    by (simp add: api_a_def haversine_np_same)
  have 2: "(api_far, Some (6371 * pi)) \<notin> set (nearby_rows stable_sort [api_a, api_far] 127 37 1)"
    unfolding inst [THEN conjunct1]
    by (simp add: api_a_def api_far_def haversine_np_far far_beyond)
  have 3: "(api_a\<lparr>api_hours := ''9-18'', api_operator := ''X'', api_charger_type := ''7'', api_status := ''9''\<rparr>,
      Some 0) \<in>
     set (nearby_rows stable_sort
           (map (\<lambda>x. x\<lparr>api_hours := ''9-18'', api_operator := ''X'', api_charger_type := ''7'',
                        api_status := ''9''\<rparr>) [api_a, api_far]) 127 37 1)"
    using inst [THEN conjunct2, of api_a "Some 0" "[api_a, api_far]" 127 37 1] 1 by blast
  from 1 2 3 show ?thesis
    using stable_sort_sorts [where ?'a = api_station] by simp
qed

subsection \<open>C4: no clamp before the square root\<close>




subsection \<open>C9: duplicates in the result\<close>

text \<open>
  C9 says that no name and address pair appears twice in a result. Neither search
  removes duplicates: the result holds every row of the frame that passes the mask. A
  frame with two rows for one station, here two chargers that differ in the connector
  (in the API frame: in charger type and status), gives a result with that station
  twice.
\<close>

theorem station_twice_counterexample:
  "name_address station_a_second = name_address station_a \<and>
   \<not> distinct (map (name_address \<circ> fst)
        (search_rows stable_sort [station_a, station_a_second]
           (sidebar [station_a, station_a_second] pick_all) 127 37 1)) \<and>
   api_name_address api_a_second = api_name_address api_a \<and>
   \<not> distinct (map (api_name_address \<circ> fst)
        (nearby_rows stable_sort [api_a, api_a_second] 127 37 1))"
  by (simp add: sample_simps name_address_def api_name_address_def)

text \<open>
  C9, amended. The records of a result are exactly the rows of the frame that pass the
  filters, each as often as the frame holds it. So a name and address pair appears in
  the result at most as often as in the frame, and when the pairs of the frame are
  distinct those of the result are distinct. This holds in both applications, for every
  sort that returns the rows it was given.
\<close>

theorem result_rows_from_repository:
  assumes "sorts_by_distance srt" and "sorts_by_distance srt'"
  shows "mset (map fst (search_rows srt df sel lon_ref lat_ref r)) =
           mset (filter (\<lambda>x. row_mask sel r (x, haversine_cell (lon x) (lat x) lon_ref lat_ref)) df) \<and>
         mset (map (name_address \<circ> fst) (search_rows srt df sel lon_ref lat_ref r)) \<subseteq>#
           mset (map name_address df) \<and>
         (distinct (map name_address df) \<longrightarrow>
            distinct (map (name_address \<circ> fst) (search_rows srt df sel lon_ref lat_ref r))) \<and>
         mset (map fst (nearby_rows srt' df' lon_ref lat_ref r)) =
           mset (filter (\<lambda>x. within_radius (haversine_cell (api_lon x) (api_lat x) lon_ref lat_ref) r) df') \<and>
         mset (map (api_name_address \<circ> fst) (nearby_rows srt' df' lon_ref lat_ref r)) \<subseteq>#
           mset (map api_name_address df') \<and>
         (distinct (map api_name_address df') \<longrightarrow>
            distinct (map (api_name_address \<circ> fst) (nearby_rows srt' df' lon_ref lat_ref r)))"
proof -
  note 1 = search_rows_stations [OF assms(1), of df sel lon_ref lat_ref r]
  note 2 = nearby_rows_stations [OF assms(2), of df' lon_ref lat_ref r]
  have 3: "mset (map (name_address \<circ> fst) (search_rows srt df sel lon_ref lat_ref r)) \<subseteq>#
           mset (map name_address df)"
    unfolding mset_map_comp 1 using mset_map_filter_subseteq [of name_address _ df] by simp
  have 4: "mset (map (api_name_address \<circ> fst) (nearby_rows srt' df' lon_ref lat_ref r)) \<subseteq>#
           mset (map api_name_address df')"
    unfolding mset_map_comp 2 using mset_map_filter_subseteq [of api_name_address _ df'] by simp
  from 1 2 3 4 show ?thesis
    by (blast intro: distinct_mset_subseteq)
qed

text \<open>
  The theorem at the sample frames, whose name and address pairs are distinct: so are
  those of the two results.
\<close>

theorem result_rows_from_repository_witness:
  "sorts_by_distance (stable_sort :: (station \<times> fcell) list \<Rightarrow> (station \<times> fcell) list) \<and>
   sorts_by_distance (stable_sort :: (api_station \<times> fcell) list \<Rightarrow> (api_station \<times> fcell) list) \<and>
   distinct (map name_address [station_a, station_far, station_b]) \<and>
   distinct (map (name_address \<circ> fst) [(station_a, Some (0::real)), (station_b, Some 0)]) \<and>
   distinct (map api_name_address [api_a, api_far]) \<and>
   distinct (map (api_name_address \<circ> fst) [(api_a, Some (0::real))])"
proof -
  have d: "distinct (map name_address [station_a, station_far, station_b])"
    by (simp add: name_address_def station_a_def station_b_def station_far_def)
  have e: "distinct (map api_name_address [api_a, api_far])"
    by (simp add: api_name_address_def api_a_def api_far_def)
  note inst = result_rows_from_repository [OF stable_sort_sorts stable_sort_sorts,
      of "[station_a, station_far, station_b]"
         "sidebar [station_a, station_far, station_b] pick_all" 127 37 1 "[api_a, api_far]"]
  from inst d e have
    "distinct (map (name_address \<circ> fst)
        (search_rows stable_sort [station_a, station_far, station_b]
           (sidebar [station_a, station_far, station_b] pick_all) 127 37 1))"
    "distinct (map (api_name_address \<circ> fst) (nearby_rows stable_sort [api_a, api_far] 127 37 1))"
    by blast+
  then show ?thesis
    using d e stable_sort_sorts [where ?'a = station] stable_sort_sorts [where ?'a = api_station]
    by (simp only: sample_search sample_nearby)
qed


subsection \<open>C6: coordinates at ingestion\<close>




subsection \<open>C5: no check of the parameters\<close>




subsection \<open>C8: the search leaves the repository as it is\<close>

text \<open>
  C8: a search does not change the repository and gives the same result when repeated.
  In the store model, for an application whose repository reference is in use: the
  block under the search button leaves the reference of the repository and every frame
  that existed before the search as they were; the result is a frame at a reference
  that was not in use before, holding the rows of the search together with their
  distances, and it is a function of the rows of the repository and the parameters; the
  same search run again on the state the first one left gives the same result frame.
  This holds in both applications. In the API application the point is the one the
  location gives; when the address is not found only the flag of the session changes.
\<close>

theorem query_leaves_repository:
  assumes "df_raw a < next_ref (heap a)" and "api_df b < next_ref (api_heap b)"
  shows "df_raw (search_click srt sel la lo r a) = df_raw a \<and>
         (\<forall>k<next_ref (heap a). frames (heap (search_click srt sel la lo r a)) k = frames (heap a) k) \<and>
         result_frame (search_click srt sel la lo r a) =
           Some (With_distance (search_rows srt (rows_of (frames (heap a) (df_raw a))) sel lo la r)) \<and>
         (\<exists>ref\<ge>next_ref (heap a). results (session_state (search_click srt sel la lo r a)) = Some ref) \<and>
         result_frame (search_click srt sel la lo r (search_click srt sel la lo r a)) =
           result_frame (search_click srt sel la lo r a) \<and>
         api_df (search_button srt' loc r b) = api_df b \<and>
         (\<forall>k<next_ref (api_heap b).
            frames (api_heap (search_button srt' loc r b)) k = frames (api_heap b) k) \<and>
         (user_point loc = Some (la, lo) \<longrightarrow>
            frames (api_heap (search_button srt' loc r b))
              (nearby (api_session_state (search_button srt' loc r b))) =
              With_distance (nearby_rows srt' (rows_of (frames (api_heap b) (api_df b))) lo la r) \<and>
            next_ref (api_heap b) \<le> nearby (api_session_state (search_button srt' loc r b))) \<and>
         frames (api_heap (search_button srt' loc r (search_button srt' loc r b)))
           (nearby (api_session_state (search_button srt' loc r (search_button srt' loc r b)))) =
         frames (api_heap (search_button srt' loc r b))
           (nearby (api_session_state (search_button srt' loc r b)))"
proof -
  let ?a = "search_click srt sel la lo r a"
  let ?b = "search_button srt' loc r b"
  have a1: "df_raw ?a < next_ref (heap ?a)"
    using assms(1) by (simp add: search_click_fields)
  have a2: "frames (heap ?a) (df_raw ?a) = frames (heap a) (df_raw a)"
    using assms(1) by (simp add: search_click_fields search_click_frames)
  have twice: "result_frame (search_click srt sel la lo r ?a) = result_frame ?a"
    by (simp only: search_click_result a2)
  have fresh: "\<exists>ref\<ge>next_ref (heap a). results (session_state ?a) = Some ref"
    by (simp add: search_click_fields)
  have b2: "frames (api_heap ?b) (api_df ?b) = frames (api_heap b) (api_df b)"
    using assms(2) by (simp add: search_button_fields search_button_frames)
  have again: "frames (api_heap (search_button srt' loc r ?b))
           (nearby (api_session_state (search_button srt' loc r ?b))) =
         frames (api_heap ?b) (nearby (api_session_state ?b))"
  proof (cases "user_point loc")
    case None
    then show ?thesis by (simp add: search_button_None)
  next
    case (Some p)
    then have p: "user_point loc = Some (fst p, snd p)" by simp
    show ?thesis
      by (simp only: search_button_result [OF p] b2)
  qed
  have found: "user_point loc = Some (la, lo) \<longrightarrow>
            frames (api_heap ?b) (nearby (api_session_state ?b)) =
              With_distance (nearby_rows srt' (rows_of (frames (api_heap b) (api_df b))) lo la r) \<and>
            next_ref (api_heap b) \<le> nearby (api_session_state ?b)"
  proof (intro impI conjI)
    assume p: "user_point loc = Some (la, lo)"
    show "frames (api_heap ?b) (nearby (api_session_state ?b)) =
              With_distance (nearby_rows srt' (rows_of (frames (api_heap b) (api_df b))) lo la r)"
      by (rule search_button_result [OF p])
    show "next_ref (api_heap b) \<le> nearby (api_session_state ?b)"
      by (simp add: search_button_fresh [OF p])
  qed
  have rest: "df_raw ?a = df_raw a \<and>
         (\<forall>k<next_ref (heap a). frames (heap ?a) k = frames (heap a) k) \<and>
         result_frame ?a =
           Some (With_distance (search_rows srt (rows_of (frames (heap a) (df_raw a))) sel lo la r)) \<and>
         api_df ?b = api_df b \<and>
         (\<forall>k<next_ref (api_heap b). frames (api_heap ?b) k = frames (api_heap b) k)"
    by (simp add: search_click_fields search_click_frames search_click_result
        search_button_fields search_button_frames)
  show ?thesis
    using twice fresh again found rest by blast
qed

text \<open>
  The theorem at the two sample applications, for the point (37, 127) and the radius 1.
\<close>

theorem query_leaves_repository_witness:
  "df_raw app_start < next_ref (heap app_start) \<and>
   api_df api_start < next_ref (api_heap api_start) \<and>
   frames (heap (search_click stable_sort (sidebar [station_a, station_far, station_b] pick_all)
                   37 127 1 app_start)) 0 =
     Plain [station_a, station_far, station_b] \<and>
   result_frame (search_click stable_sort (sidebar [station_a, station_far, station_b] pick_all)
                   37 127 1 app_start) =
     Some (With_distance [(station_a, Some 0), (station_b, Some 0)]) \<and>
   result_frame
     (search_click stable_sort (sidebar [station_a, station_far, station_b] pick_all) 37 127 1
        (search_click stable_sort (sidebar [station_a, station_far, station_b] pick_all)
           37 127 1 app_start)) =
     Some (With_distance [(station_a, Some 0), (station_b, Some 0)]) \<and>
   user_point (Direct 37 127) = Some (37, 127) \<and>
   frames (api_heap (search_button stable_sort (Direct 37 127) 1 api_start)) 0 =
     Plain [api_a, api_far] \<and>
   frames (api_heap (search_button stable_sort (Direct 37 127) 1 api_start))
     (nearby (api_session_state (search_button stable_sort (Direct 37 127) 1 api_start))) =
     With_distance [(api_a, Some 0)]"
proof -
  let ?sel = "sidebar [station_a, station_far, station_b] pick_all"
  let ?a = "search_click stable_sort ?sel 37 127 1 app_start"
  let ?b = "search_button stable_sort (Direct 37 127) 1 api_start"
  note inst = query_leaves_repository [OF app_start_rows(1) api_start_rows(1),
      where srt = stable_sort and sel = ?sel and la = 37 and lo = 127 and r = 1
        and srt' = stable_sort and loc = "Direct 37 127"]
  have p: "user_point (Direct 37 127) = Some (37, 127)"
    by simp
  from inst have "\<forall>k<next_ref (heap app_start). frames (heap ?a) k = frames (heap app_start) k"
    by blast
  then have 1: "frames (heap ?a) 0 = Plain [station_a, station_far, station_b]"
    by (simp add: app_start_rows)
  from inst have "result_frame ?a =
      Some (With_distance (search_rows stable_sort
        (rows_of (frames (heap app_start) (df_raw app_start))) ?sel 127 37 1))"
    by blast
  then have 2: "result_frame ?a = Some (With_distance [(station_a, Some 0), (station_b, Some 0)])"
    by (simp only: app_start_rows sample_search)
  from inst have "result_frame (search_click stable_sort ?sel 37 127 1 ?a) = result_frame ?a"
    by blast
  with 2 have 3: "result_frame (search_click stable_sort ?sel 37 127 1 ?a) =
      Some (With_distance [(station_a, Some 0), (station_b, Some 0)])"
    by simp
  from inst have "\<forall>k<next_ref (api_heap api_start). frames (api_heap ?b) k = frames (api_heap api_start) k"
    by blast
  then have 4: "frames (api_heap ?b) 0 = Plain [api_a, api_far]"
    by (simp add: api_start_rows)
  from inst p have "frames (api_heap ?b) (nearby (api_session_state ?b)) =
      With_distance (nearby_rows stable_sort
        (rows_of (frames (api_heap api_start) (api_df api_start))) 127 37 1)"
    by blast
  then have 5: "frames (api_heap ?b) (nearby (api_session_state ?b)) = With_distance [(api_a, Some 0)]"
    by (simp only: api_start_rows sample_nearby)
  from app_start_rows(1) api_start_rows(1) p 1 2 3 4 5 show ?thesis
    by blast
qed
end
